theory Spec2Isabelle
  imports Main
begin

section \<open>Data model\<close>

text \<open>
  Modelled from the spec: the declarations of \<open>src/types/product.ts\<close> (\<open>Product\<close>,
  \<open>ProductsResponse\<close>) are not among the sources. The spec gives a Product a unique integer
  id, a title and further fields that the pagination code passes through without reading
  them, and a page the shape \<open>{ products, total, skip, limit }\<close>. The numbers of a page
  are JavaScript numbers holding integers; an \<open>int\<close> here is the integer such a number
  holds.
\<close>

record Product =
  product_id :: int
  title :: string

record ProductsResponse =
  products :: "Product list"
  total :: int
  skip :: int
  limit :: int

section \<open>The transport\<close>

text \<open>
  The three ways \<open>fetchProducts\<close> can reject, named as in the error taxonomy:
  \<^item> \<open>TransportError m\<close>: the promise of \<open>fetch\<close> itself rejected (no response arrived);
  \<^item> \<open>FetchFailed m\<close>: the \<open>Error\<close> thrown at \<open>if (!response.ok)\<close>, with its message;
  \<^item> \<open>DecodeError m\<close>: the promise of \<open>response.json()\<close> rejected.

  The code passes the two platform rejections on as they are, so their reason is a type
  parameter \<open>'e\<close>: whatever \<open>fetch\<close> and \<open>response.json()\<close> reject with. Where only the
  reason's message matters it is a string (\<open>fetch_error\<close>).
\<close>

datatype 'e fetch_error_of = TransportError 'e | FetchFailed string | DecodeError 'e

type_synonym fetch_error = "string fetch_error_of"

text \<open>
  What \<open>response.json()\<close> settles to: a rejection, or the decoded value. The code hands the
  decoded value on without looking at it, so it is a type parameter \<open>'v\<close>. The hook and the
  components are typed against \<open>ProductsResponse\<close>, and from the hook onwards the model
  follows them at that type (\<open>json_body\<close>, \<open>response\<close>, \<open>fetch_outcome\<close>, \<open>network\<close>).
\<close>

datatype ('v, 'e) json_body_of = Malformed 'e | Parsed 'v

type_synonym json_body = "(ProductsResponse, string) json_body_of"

record ('v, 'e) response_of =
  ok :: bool
  statusText :: string
  json :: "('v, 'e) json_body_of"

type_synonym response = "(ProductsResponse, string) response_of"

text \<open>What \<open>fetch(url, init)\<close> settles to.\<close>

datatype ('v, 'e) fetch_outcome_of = Rejected 'e | Responded "('v, 'e) response_of"

type_synonym fetch_outcome = "(ProductsResponse, string) fetch_outcome_of"

text \<open>
  A decodable body is a page or JSON of another shape (kept as its text), as far as
  \<open>fetchProducts\<close> alone is concerned.
\<close>

datatype json_value = Page ProductsResponse | OtherJson string

fun has_page_shape :: "json_value \<Rightarrow> bool" where
  "has_page_shape (Page page) = True"
| "has_page_shape (OtherJson text) = False"

text \<open>
  A rejection reason as the platform makes it: an error object with its class name and
  message. \<open>thrown\<close> is the value a caller of \<open>fetchProducts\<close> catches: the reason passed
  on, or the plain \<open>Error\<close> made by \<open>new Error(message)\<close>.
\<close>

record js_error =
  error_class :: string
  error_text :: string

fun thrown :: "js_error fetch_error_of \<Rightarrow> js_error" where
  "thrown (TransportError reason) = reason"
| "thrown (FetchFailed m) = \<lparr>error_class = ''Error'', error_text = m\<rparr>"
| "thrown (DecodeError reason) = reason"

text \<open>
  A request as \<open>fetch\<close> sends it: the method (GET when \<open>init\<close> names none), the URL and
  the caching hint \<open>next.revalidate\<close>.
\<close>

record request =
  request_method :: string
  url :: string
  revalidate :: int

text \<open>
  The network is the list of requests issued so far and the remote side's answer, which
  may depend on how many requests came before (so that a retry of the same URL can be
  answered differently).
\<close>

record ('v, 'e) network_of =
  requests :: "request list"
  respond :: "nat \<Rightarrow> request \<Rightarrow> ('v, 'e) fetch_outcome_of"

type_synonym network = "(ProductsResponse, string) network_of"

definition fetch ::
  "request \<Rightarrow> ('v, 'e) network_of \<Rightarrow> ('v, 'e) fetch_outcome_of \<times> ('v, 'e) network_of" where
  "fetch rq net =
     (respond net (length (requests net)) rq, net\<lparr>requests := requests net @ [rq]\<rparr>)"

section \<open>Rendering a number inside a template string\<close>

text \<open>
  \<open>`${n}`\<close> for an integer-valued number of magnitude below \<open>10^21\<close> is its decimal
  numeral, with a leading minus sign when negative.
\<close>

definition digit_char :: "nat \<Rightarrow> char" where
  "digit_char d = ''0123456789'' ! (d mod 10)"

function show_nat :: "nat \<Rightarrow> string" where
  "show_nat n = (if n < 10 then [digit_char n] else show_nat (n div 10) @ [digit_char n])"
  by pat_completeness auto
termination
  by (relation "measure (\<lambda>n. n)") auto

declare show_nat.simps [simp del]

definition show_number :: "int \<Rightarrow> string" where
  "show_number i = (if i < 0 then ''-'' @ show_nat (nat (- i)) else show_nat (nat i))"

definition MAX_SAFE_INTEGER :: int where
  "MAX_SAFE_INTEGER = 2 ^ 53 - 1"

text \<open>\<open>Number.isSafeInteger\<close>\<close>

definition safe_integer :: "int \<Rightarrow> bool" where
  "safe_integer n \<longleftrightarrow> \<bar>n\<bar> \<le> MAX_SAFE_INTEGER"

text \<open>The arguments the contract of the catalog client admits.\<close>

definition valid_args :: "int \<Rightarrow> int \<Rightarrow> bool" where
  "valid_args limit' skip' \<longleftrightarrow>
     0 < limit' \<and> limit' \<le> MAX_SAFE_INTEGER \<and> 0 \<le> skip' \<and> skip' \<le> MAX_SAFE_INTEGER"

section \<open>Adding two numbers\<close>

text \<open>
  The numbers of a page are doubles holding integers. \<open>a + b\<close> is the exact sum rounded
  to the nearest double, a tie going to the even mantissa: a sum of magnitude up to
  \<open>2^53\<close> is exact, beyond that only every second, fourth, ... integer is a double.
  \<open>bit_length\<close> is the number of binary digits, \<open>round_double\<close> keeps the leading 53 of
  them. A sum too large for a double is \<open>Infinity\<close> in JavaScript; here it is an integer
  of at least \<open>2^1024\<close>, which like \<open>Infinity\<close> is above every double (and symmetrically
  for a sum too far below zero).
\<close>

function bit_length :: "nat \<Rightarrow> nat" where
  "bit_length n = (if n = 0 then 0 else Suc (bit_length (n div 2)))"
  by pat_completeness auto
termination
  by (relation "measure (\<lambda>n. n)") auto

declare bit_length.simps [simp del]

definition round_double :: "int \<Rightarrow> int" where
  "round_double n =
     (let a = nat \<bar>n\<bar>;
          unit = 2 ^ (bit_length a - 53);
          q = a div unit;
          r = a mod unit;
          q' = (if 2 * r > unit \<or> (2 * r = unit \<and> odd q) then q + 1 else q)
      in sgn n * int (q' * unit))"

definition js_add :: "int \<Rightarrow> int \<Rightarrow> int" where
  "js_add a b = round_double (a + b)"

section \<open>Catalog client: \<open>ProductService.fetchProducts\<close>\<close>

definition API_BASE_URL :: string where
  "API_BASE_URL = ''https://dummyjson.com''"

definition products_url :: "int \<Rightarrow> int \<Rightarrow> string" where
  "products_url limit' skip' =
     API_BASE_URL @ ''/products?limit='' @ show_number limit' @ ''&skip='' @ show_number skip'"

definition products_request :: "int \<Rightarrow> int \<Rightarrow> request" where
  "products_request limit' skip' =
     \<lparr>request_method = ''GET'', url = products_url limit' skip', revalidate = 60\<rparr>"

definition fetchProducts ::
  "int \<Rightarrow> int \<Rightarrow> ('v, 'e) network_of \<Rightarrow> ('e fetch_error_of + 'v) \<times> ('v, 'e) network_of" where
  "fetchProducts limit' skip' net =
     (case fetch (products_request limit' skip') net of
        (Rejected reason, net') \<Rightarrow> (Inl (TransportError reason), net')
      | (Responded resp, net') \<Rightarrow>
          if \<not> ok resp
          then (Inl (FetchFailed (''Failed to fetch products: '' @ statusText resp)), net')
          else (case json resp of
                  Malformed reason \<Rightarrow> (Inl (DecodeError reason), net')
                | Parsed page \<Rightarrow> (Inr page, net')))"

section \<open>Pagination hook: \<open>useProducts\<close>\<close>

text \<open>
  The service interface \<open>IProductService\<close>: one capability, \<open>fetchProducts(limit, skip)\<close>,
  declared to resolve to a \<open>ProductsResponse\<close>.
\<close>

type_synonym IProductService =
  "int \<Rightarrow> int \<Rightarrow> network \<Rightarrow> (fetch_error + ProductsResponse) \<times> network"

record UseProductsOptions =
  pageSize :: "int option"
  initialData :: "ProductsResponse option"

text \<open>The value the query holds: \<open>{ pages, pageParams }\<close>.\<close>

record InfiniteData =
  pages :: "ProductsResponse list"
  pageParams :: "int list"

text \<open>
  \<open>queryFn\<close>: the destructuring default \<open>pageParam = 0\<close> applies when the parameter is
  \<open>undefined\<close> (\<open>None\<close>).
\<close>

definition queryFn ::
  "IProductService \<Rightarrow> int \<Rightarrow> int option \<Rightarrow> network
     \<Rightarrow> (fetch_error + ProductsResponse) \<times> network" where
  "queryFn productService pageSize' pageParam =
     productService pageSize' (case pageParam of None \<Rightarrow> 0 | Some p \<Rightarrow> p)"

text \<open>\<open>getNextPageParam\<close>: \<open>+\<close> adds two doubles, and \<open>undefined\<close> is \<open>None\<close>.\<close>

definition getNextPageParam :: "ProductsResponse \<Rightarrow> int option" where
  "getNextPageParam lastPage =
     (let nextSkip = js_add (skip lastPage) (limit lastPage)
      in if nextSkip < total lastPage then Some nextSkip else None)"

text \<open>The options object that \<open>useProducts\<close> hands to \<open>useInfiniteQuery\<close>.\<close>

record InfiniteQueryOptions =
  queryKey :: "string \<times> int"
  opt_queryFn :: "int option \<Rightarrow> network \<Rightarrow> (fetch_error + ProductsResponse) \<times> network"
  opt_getNextPageParam :: "ProductsResponse \<Rightarrow> int option"
  initialPageParam :: int
  opt_initialData :: "InfiniteData option"

text \<open>\<open>const pageSize = options.pageSize ?? 20\<close>\<close>

definition pageSize_of :: "UseProductsOptions \<Rightarrow> int" where
  "pageSize_of options = (case pageSize options of None \<Rightarrow> 20 | Some n \<Rightarrow> n)"

definition useProducts :: "IProductService \<Rightarrow> UseProductsOptions \<Rightarrow> InfiniteQueryOptions" where
  "useProducts productService options =
     (let pageSize' = pageSize_of options
      in \<lparr>queryKey = (''products'', pageSize'),
          opt_queryFn = queryFn productService pageSize',
          opt_getNextPageParam = getNextPageParam,
          initialPageParam = 0,
          opt_initialData =
            (case initialData options of
               Some d \<Rightarrow> Some \<lparr>pages = [d], pageParams = [0]\<rparr>
             | None \<Rightarrow> None)\<rparr>)"

section \<open>The infinite-query utility\<close>

text \<open>
  Modelled from the spec: \<open>useInfiniteQuery\<close> is a third-party utility whose code is not
  among the sources; the hook only configures it. Every definition of this section is
  modelled from the spec's Pagination Controller (section 4.2) and error policy
  (section 7): an ordered sequence of fetched pages, a cursor derived from the most
  recent page, at most one request in flight, a page appended on success, state kept and
  the error handed on after a failure, and a seed page used in place of a first fetch.
  The cursor and the exhausted flag are not stored: they are what the configured
  \<open>getNextPageParam\<close> says of the last page.
\<close>

text \<open>
  Modelled from the spec: the controller's state (\<open>useInfiniteQuery\<close> is not under src/).
  \<open>cached\<close> holds the pages fetched so far, \<open>failure\<close> the error of the last attempt if it
  failed, and \<open>pending\<close> the request in flight: the page parameter it was issued for and
  what its promise will settle to.
\<close>

record QueryState =
  cached :: "InfiniteData option"
  failure :: "fetch_error option"
  pending :: "(int \<times> (fetch_error + ProductsResponse)) option"

text \<open>
  Modelled from the spec: what \<open>useInfiniteQuery\<close> (not under src/) asks the configured
  \<open>getNextPageParam\<close> about the last page held; \<open>None\<close> is the spec's "exhausted".
\<close>

definition nextPageParam :: "InfiniteQueryOptions \<Rightarrow> QueryState \<Rightarrow> int option" where
  "nextPageParam opts s =
     (case cached s of
        None \<Rightarrow> None
      | Some d \<Rightarrow> if pages d = [] then None else opt_getNextPageParam opts (last (pages d)))"

text \<open>
  Modelled from the spec: the cursor of \<open>useInfiniteQuery\<close> (not under src/), the offset the
  next request will carry: the start when nothing is loaded yet.
\<close>

definition cursor :: "InfiniteQueryOptions \<Rightarrow> QueryState \<Rightarrow> int option" where
  "cursor opts s =
     (case cached s of
        None \<Rightarrow> Some (initialPageParam opts)
      | Some d \<Rightarrow> if pages d = [] then Some (initialPageParam opts) else nextPageParam opts s)"

text \<open>
  Modelled from the spec: \<open>useInfiniteQuery\<close> (not under src/) calls the configured
  \<open>queryFn\<close> with the page parameter and keeps the promise as the request in flight.
\<close>

definition startFetch ::
  "InfiniteQueryOptions \<Rightarrow> int \<Rightarrow> QueryState \<times> network \<Rightarrow> QueryState \<times> network" where
  "startFetch opts p c =
     (case c of (s, net) \<Rightarrow>
        (case opt_queryFn opts (Some p) net of
           (result, net') \<Rightarrow> (s\<lparr>pending := Some (p, result)\<rparr>, net')))"

text \<open>
  Modelled from the spec: \<open>fetchNextPage\<close> of \<open>useInfiniteQuery\<close> (not under src/), the
  spec's \<open>loadNext()\<close> up to the point where the request is out: nothing happens while a
  request is in flight or when there is no next page.
\<close>

definition fetchNextPage ::
  "InfiniteQueryOptions \<Rightarrow> QueryState \<times> network \<Rightarrow> QueryState \<times> network" where
  "fetchNextPage opts c =
     (case c of (s, net) \<Rightarrow>
        if pending s \<noteq> None then c
        else (case cursor opts s of None \<Rightarrow> c | Some p \<Rightarrow> startFetch opts p c))"

text \<open>
  Modelled from the spec: how \<open>useInfiniteQuery\<close> (not under src/) takes in the settled
  request: a page is appended, or the error is recorded and the pages are kept.
\<close>

definition settle :: "QueryState \<Rightarrow> QueryState" where
  "settle s =
     (case pending s of
        None \<Rightarrow> s
      | Some (p, Inr page) \<Rightarrow>
          (let d = (case cached s of None \<Rightarrow> \<lparr>pages = [], pageParams = []\<rparr> | Some d \<Rightarrow> d)
           in s\<lparr>cached := Some \<lparr>pages = pages d @ [page], pageParams = pageParams d @ [p]\<rparr>,
                failure := None, pending := None\<rparr>)
      | Some (p, Inl e) \<Rightarrow> s\<lparr>failure := Some e, pending := None\<rparr>)"

text \<open>
  Modelled from the spec: a whole \<open>loadNext()\<close> of the controller (\<open>useInfiniteQuery\<close>,
  not under src/): the request goes out and its promise settles.
\<close>

definition loadNext ::
  "InfiniteQueryOptions \<Rightarrow> QueryState \<times> network \<Rightarrow> QueryState \<times> network" where
  "loadNext opts c = (case fetchNextPage opts c of (s', net') \<Rightarrow> (settle s', net'))"

text \<open>
  Modelled from the spec: the state \<open>useInfiniteQuery\<close> (not under src/) starts from, the
  spec's \<open>reset(initialPage?)\<close>: the seed when one is configured.
\<close>

definition initialState :: "InfiniteQueryOptions \<Rightarrow> QueryState" where
  "initialState opts = \<lparr>cached = opt_initialData opts, failure = None, pending = None\<rparr>"

text \<open>
  Modelled from the spec: mounting the hook (\<open>useInfiniteQuery\<close> is not under src/): with
  a seed nothing is requested; without one the first page is requested.
\<close>

definition mount :: "InfiniteQueryOptions \<Rightarrow> network \<Rightarrow> QueryState \<times> network" where
  "mount opts net =
     (let s = initialState opts
      in if cached s = None then startFetch opts (initialPageParam opts) (s, net) else (s, net))"

text \<open>
  Modelled from the spec: what \<open>useInfiniteQuery\<close> (not under src/) returns, and so what
  the hook returns to the component on a render, as far as the component reads it:
  \<open>data\<close>, \<open>hasNextPage\<close>, \<open>isFetchingNextPage\<close>, \<open>isLoading\<close> and \<open>error\<close>
  (\<open>fetchNextPage\<close> is the operation above). There is a next page when the configured
  \<open>getNextPageParam\<close> yields a parameter for the last page; a next page is being fetched
  when a request is in flight and pages are already held; the query is loading when a
  request is in flight and nothing is held yet.
\<close>

record QueryResult =
  data :: "InfiniteData option"
  hasNextPage :: bool
  isFetchingNextPage :: bool
  isLoading :: bool
  error :: "fetch_error option"

definition query_result :: "InfiniteQueryOptions \<Rightarrow> QueryState \<Rightarrow> QueryResult" where
  "query_result opts s =
     \<lparr>data = cached s,
      hasNextPage = (nextPageParam opts s \<noteq> None),
      isFetchingNextPage = (pending s \<noteq> None \<and> cached s \<noteq> None),
      isLoading = (pending s \<noteq> None \<and> cached s = None),
      error = failure s\<rparr>"

section \<open>Presentation layer\<close>

subsection \<open>\<open>ProductListClient\<close>\<close>

text \<open>\<open>data?.pages.flatMap((page) => page.products) ?? []\<close>\<close>

definition allProducts :: "InfiniteData option \<Rightarrow> Product list" where
  "allProducts d = (case d of None \<Rightarrow> [] | Some d' \<Rightarrow> concat (map products (pages d')))"

text \<open>
  \<open>error instanceof Error ? error.message : 'An error occurred'\<close>: every rejection of
  \<open>fetchProducts\<close> is an \<open>Error\<close> object, and this is its \<open>message\<close>.
\<close>

fun error_message :: "fetch_error \<Rightarrow> string" where
  "error_message (TransportError m) = m"
| "error_message (FetchFailed m) = m"
| "error_message (DecodeError m) = m"

text \<open>
  The props of \<open>ProductGrid\<close>; \<open>grid_isLoading\<close> is its prop \<open>isLoading\<close>, and
  \<open>onLoadMore\<close> is not a field because the component always passes \<open>fetchNextPage\<close>.
\<close>

record ProductGridProps =
  initialProducts :: "Product list"
  grid_isLoading :: bool
  hasMore :: bool

text \<open>
  What the component returns: the error panel (heading and message), the first-load
  spinner, or the grid with its props.
\<close>

datatype View = ErrorView string string | LoadingView | ProductGrid ProductGridProps

text \<open>
  The component calls the hook with the service singleton and \<open>{ initialData }\<close>, and
  renders from what the hook returns.
\<close>

definition client_options :: "ProductsResponse option \<Rightarrow> InfiniteQueryOptions" where
  "client_options initialData' =
     useProducts fetchProducts \<lparr>pageSize = None, initialData = initialData'\<rparr>"

definition ProductListClient :: "QueryResult \<Rightarrow> View" where
  "ProductListClient r =
     (case error r of
        Some e \<Rightarrow> ErrorView ''Failed to load products'' (error_message e)
      | None \<Rightarrow>
          if isLoading r \<and> length (allProducts (data r)) = 0 then LoadingView
          else ProductGrid
                 \<lparr>initialProducts = allProducts (data r),
                  grid_isLoading = isFetchingNextPage r,
                  hasMore = hasNextPage r\<rparr>)"

text \<open>The render of the mounted component in a given state of the query.\<close>

definition render :: "ProductsResponse option \<Rightarrow> QueryState \<Rightarrow> View" where
  "render initialData' s = ProductListClient (query_result (client_options initialData') s)"

subsection \<open>\<open>ProductGrid\<close>: the scroll trigger\<close>

record IntersectionObserverEntry =
  isIntersecting :: bool

text \<open>
  \<open>handleIntersection\<close> reads the first entry only; on an empty array \<open>entry\<close> is
  \<open>undefined\<close> and reading \<open>entry.isIntersecting\<close> throws a TypeError.
\<close>

datatype js_exception = TypeError

definition handleIntersection ::
  "IntersectionObserverEntry list \<Rightarrow> bool \<Rightarrow> bool \<Rightarrow> ('s \<Rightarrow> 's) \<Rightarrow> 's \<Rightarrow> js_exception + 's" where
  "handleIntersection entries isLoading' hasMore' onLoadMore st =
     (case entries of
        [] \<Rightarrow> Inl TypeError
      | entry # _ \<Rightarrow>
          if isIntersecting entry \<and> \<not> isLoading' \<and> hasMore' then Inr (onLoadMore st)
          else Inr st)"

text \<open>Which of the grid's optional parts are shown below the cards.\<close>

definition showsSpinner :: "ProductGridProps \<Rightarrow> bool" where
  "showsSpinner props \<longleftrightarrow> grid_isLoading props"

definition showsNoMore :: "ProductGridProps \<Rightarrow> bool" where
  "showsNoMore props \<longleftrightarrow> \<not> hasMore props \<and> length (initialProducts props) > 0"

subsection \<open>The mounted view as a transition system\<close>

text \<open>
  Two things happen to a mounted view: the observer reports the sentinel (the callback
  runs with the props of the current render, and only while the grid, which holds the
  sentinel, is what is rendered), or the request in flight settles. An exception thrown
  inside the callback leaves the state as it was.
\<close>

datatype event = Intersection "IntersectionObserverEntry list" | Settled

definition step ::
  "ProductsResponse option \<Rightarrow> event \<Rightarrow> QueryState \<times> network \<Rightarrow> QueryState \<times> network" where
  "step initialData' ev c =
     (case ev of
        Settled \<Rightarrow> (settle (fst c), snd c)
      | Intersection entries \<Rightarrow>
          (case render initialData' (fst c) of
             ProductGrid props \<Rightarrow>
               (case handleIntersection entries (grid_isLoading props) (hasMore props)
                       (fetchNextPage (client_options initialData')) c of
                  Inl _ \<Rightarrow> c
                | Inr c' \<Rightarrow> c')
           | _ \<Rightarrow> c))"

fun run ::
  "ProductsResponse option \<Rightarrow> event list \<Rightarrow> QueryState \<times> network \<Rightarrow> QueryState \<times> network" where
  "run initialData' [] c = c"
| "run initialData' (ev # evs) c = run initialData' evs (step initialData' ev c)"

section \<open>The server page: \<open>getInitialProducts\<close> and \<open>ProductsPage\<close>\<close>

text \<open>\<open>ProductsResponse | null\<close>\<close>

datatype 'a nullable = Null | Value 'a

text \<open>The server has its own network and a console; \<open>console.error\<close> appends a line.\<close>

record server =
  server_net :: network
  console :: "(string \<times> fetch_error) list"

definition getInitialProducts :: "server \<Rightarrow> ProductsResponse nullable \<times> server" where
  "getInitialProducts srv =
     (case fetchProducts 20 0 (server_net srv) of
        (Inr page, net') \<Rightarrow> (Value page, srv\<lparr>server_net := net'\<rparr>)
      | (Inl err, net') \<Rightarrow>
          (Null, srv\<lparr>server_net := net',
                     console := console srv @ [(''Failed to fetch initial products:'', err)]\<rparr>))"

text \<open>
  The rendered page: its heading, its tagline and the \<open>initialData\<close> prop handed to
  \<open>ProductListClient\<close> (\<open>initialData ?? undefined\<close>; \<open>None\<close> is \<open>undefined\<close>).
\<close>

record ProductsPageView =
  heading :: string
  tagline :: string
  client_initialData :: "ProductsResponse option"

definition ProductsPage :: "server \<Rightarrow> ProductsPageView \<times> server" where
  "ProductsPage srv =
     (case getInitialProducts srv of
        (initialData', srv') \<Rightarrow>
          (\<lparr>heading = ''Products'',
            tagline = ''Explore our collection of products~'',
            client_initialData = (case initialData' of Null \<Rightarrow> None | Value page \<Rightarrow> Some page)\<rparr>,
           srv'))"

section \<open>Drivers and scenarios\<close>


text \<open>How often one run of the observer callback calls \<open>onLoadMore\<close>.\<close>

definition callback_calls :: "IntersectionObserverEntry list \<Rightarrow> bool \<Rightarrow> bool \<Rightarrow> nat" where
  "callback_calls entries isLoading' hasMore' =
     (case handleIntersection entries isLoading' hasMore' Suc 0 of Inl _ \<Rightarrow> 0 | Inr n \<Rightarrow> n)"

text \<open>Products, pages and remote sides used in the examples.\<close>

definition prodA :: Product where
  "prodA = \<lparr>product_id = 1, title = ''A''\<rparr>"

definition prodB :: Product where
  "prodB = \<lparr>product_id = 2, title = ''B''\<rparr>"

definition prodC :: Product where
  "prodC = \<lparr>product_id = 3, title = ''C''\<rparr>"

definition prodD :: Product where
  "prodD = \<lparr>product_id = 4, title = ''D''\<rparr>"

definition ok_response :: "ProductsResponse \<Rightarrow> fetch_outcome" where
  "ok_response page = Responded \<lparr>ok = True, statusText = ''OK'', json = Parsed page\<rparr>"

definition always :: "('v, 'e) fetch_outcome_of \<Rightarrow> ('v, 'e) network_of" where
  "always outcome = \<lparr>requests = [], respond = (\<lambda>n rq. outcome)\<rparr>"

text \<open>
  The last, short page of a catalog of 194 products, from a remote side that reports the
  number of products it returned as \<open>limit\<close>.
\<close>

definition short_page :: ProductsResponse where
  "short_page = \<lparr>products = [], total = 194, skip = 180, limit = 14\<rparr>"

definition first_of_100 :: ProductsResponse where
  "first_of_100 = \<lparr>products = [prodA], total = 100, skip = 0, limit = 20\<rparr>"

definition only_page :: ProductsResponse where
  "only_page = \<lparr>products = [prodA, prodB], total = 20, skip = 0, limit = 20\<rparr>"


definition page_two :: ProductsResponse where
  "page_two = \<lparr>products = [prodC, prodD], total = 4, skip = 2, limit = 2\<rparr>"





definition server_error :: response where
  "server_error = \<lparr>ok = False, statusText = ''Internal Server Error'', json = Malformed []\<rparr>"

definition bad_json :: response where
  "bad_json = \<lparr>ok = True, statusText = ''OK'', json = Malformed ''Unexpected token''\<rparr>"

definition loaded_one :: QueryState where
  "loaded_one =
     \<lparr>cached = Some \<lparr>pages = [\<lparr>products = [prodA], total = 40, skip = 0, limit = 20\<rparr>],
                   pageParams = [0]\<rparr>,
      failure = None, pending = None\<rparr>"

definition loaded_all :: QueryState where
  "loaded_all = \<lparr>cached = Some \<lparr>pages = [only_page], pageParams = [0]\<rparr>,
                 failure = None, pending = None\<rparr>"





text \<open>Rejection reasons and responses seen by \<open>fetchProducts\<close> alone.\<close>

definition network_down :: js_error where
  "network_down = \<lparr>error_class = ''TypeError'', error_text = ''fetch failed''\<rparr>"

definition unexpected_token :: js_error where
  "unexpected_token = \<lparr>error_class = ''SyntaxError'', error_text = ''Unexpected token''\<rparr>"

definition not_found :: "(json_value, js_error) response_of" where
  "not_found = \<lparr>ok = False, statusText = ''Not Found'', json = Parsed (OtherJson ''{}'')\<rparr>"

definition broken_body :: "(json_value, js_error) response_of" where
  "broken_body = \<lparr>ok = True, statusText = ''OK'', json = Malformed unexpected_token\<rparr>"

definition empty_object_body :: "(json_value, js_error) response_of" where
  "empty_object_body = \<lparr>ok = True, statusText = ''OK'', json = Parsed (OtherJson ''{}'')\<rparr>"



section \<open>Facts about the catalog client\<close>

lemma fetchProducts_requests:
  "snd (fetchProducts l s net) = net\<lparr>requests := requests net @ [products_request l s]\<rparr>"
  by (simp add: fetchProducts_def fetch_def split: fetch_outcome_of.split json_body_of.split)

lemma fetchProducts_result:
  "fst (fetchProducts l s net) =
     (case respond net (length (requests net)) (products_request l s) of
        Rejected m \<Rightarrow> Inl (TransportError m)
      | Responded r \<Rightarrow>
          if \<not> ok r then Inl (FetchFailed (''Failed to fetch products: '' @ statusText r))
          else (case json r of Malformed m \<Rightarrow> Inl (DecodeError m) | Parsed page \<Rightarrow> Inr page))"
  by (simp add: fetchProducts_def fetch_def split: fetch_outcome_of.split json_body_of.split)

subsection \<open>The decimal rendering determines the number\<close>

lemma digit_char_inj:
  assumes "a < 10" and "b < 10" and "digit_char a = digit_char b"
  shows "a = b"
proof -
  have "a \<in> {0, 1, 2, 3, 4, 5, 6, 7, 8, 9}" using assms(1) by auto
  moreover have "b \<in> {0, 1, 2, 3, 4, 5, 6, 7, 8, 9}" using assms(2) by auto
  ultimately show ?thesis using assms(3) by (auto simp: digit_char_def)
qed

lemma digit_char_is_digit: "digit_char d \<in> set ''0123456789''"
  unfolding digit_char_def by (rule nth_mem) simp

lemma show_nat_digits: "set (show_nat n) \<subseteq> set ''0123456789''"
proof (induction n rule: show_nat.induct)
  case (1 n)
  show ?case
  proof (cases "n < 10")
    case True
    then show ?thesis using digit_char_is_digit[of n] by (subst show_nat.simps) simp
  next
    case False
    then show ?thesis using 1 digit_char_is_digit[of n] by (subst show_nat.simps) simp
  qed
qed

lemma show_nat_nonempty: "show_nat n \<noteq> []"
  by (subst show_nat.simps) simp

lemma show_nat_inj: "show_nat n = show_nat m \<Longrightarrow> n = m"
proof (induction n arbitrary: m rule: show_nat.induct)
  case (1 n)
  show ?case
  proof (cases "n < 10")
    case n: True
    show ?thesis
    proof (cases "m < 10")
      case True
      with n 1(2) show ?thesis
        by (simp add: show_nat.simps[of n] show_nat.simps[of m] digit_char_inj)
    next
      case False
      with n 1(2) show_nat_nonempty[of "m div 10"] show ?thesis
        by (simp add: show_nat.simps[of n] show_nat.simps[of m])
    qed
  next
    case n: False
    show ?thesis
    proof (cases "m < 10")
      case True
      with n 1(2) show_nat_nonempty[of "n div 10"] show ?thesis
        by (simp add: show_nat.simps[of n] show_nat.simps[of m])
    next
      case False
      with n 1(2) have e: "show_nat (n div 10) = show_nat (m div 10)"
        and d: "digit_char n = digit_char m"
        by (simp_all add: show_nat.simps[of n] show_nat.simps[of m])
      from 1(1)[OF n e] have q: "n div 10 = m div 10" .
      have "digit_char (n mod 10) = digit_char (m mod 10)"
        using d by (simp add: digit_char_def)
      then have r: "n mod 10 = m mod 10" by (intro digit_char_inj) simp_all
      from q r show ?thesis by (metis div_mult_mod_eq)
    qed
  qed
qed

lemma split_at_sep:
  "c \<notin> set xs \<Longrightarrow> c \<notin> set ys \<Longrightarrow> xs @ c # r = ys @ c # r' \<Longrightarrow> xs = ys \<and> r = r'"
proof (induction xs arbitrary: ys)
  case Nil
  then show ?case by (cases ys) auto
next
  case (Cons x xs)
  then show ?case by (cases ys) auto
qed

lemma show_number_nonneg: "0 \<le> i \<Longrightarrow> show_number i = show_nat (nat i)"
  by (simp add: show_number_def)

lemma amp_not_digit: "CHR ''&'' \<notin> set (show_nat n)"
  using show_nat_digits[of n] by auto

lemma products_url_inj:
  assumes "0 \<le> l" "0 \<le> s" "0 \<le> l'" "0 \<le> s'"
    and "products_url l s = products_url l' s'"
  shows "l = l' \<and> s = s'"
proof -
  from assms have "show_nat (nat l) @ CHR ''&'' # (''skip='' @ show_nat (nat s))
                 = show_nat (nat l') @ CHR ''&'' # (''skip='' @ show_nat (nat s'))"
    by (simp add: products_url_def show_number_nonneg)
  from split_at_sep[OF amp_not_digit amp_not_digit this]
  have "show_nat (nat l) = show_nat (nat l')" and "show_nat (nat s) = show_nat (nat s')"
    by simp_all
  then have "nat l = nat l'" "nat s = nat s'" by (auto dest: show_nat_inj)
  with assms(1-4) show ?thesis by arith
qed

lemma show_number_examples:
  "show_number 0 = ''0''" "show_number 2 = ''2''" "show_number 20 = ''20''"
  "show_number 180 = ''180''"
  by code_simp+

section \<open>Facts about adding numbers\<close>

lemma bit_length_le: "n < 2 ^ k \<Longrightarrow> bit_length n \<le> k"
proof (induction k arbitrary: n)
  case 0
  then show ?case by (simp add: bit_length.simps[of 0])
next
  case (Suc k)
  show ?case
  proof (cases "n = 0")
    case True
    then show ?thesis by (simp add: bit_length.simps[of 0])
  next
    case False
    from Suc.prems have "n div 2 < 2 ^ k" by simp
    from Suc.IH[OF this] False show ?thesis by (simp add: bit_length.simps[of n])
  qed
qed


lemma round_double_safe:
  assumes "safe_integer n"
  shows "round_double n = n"
proof -
  from assms have "nat \<bar>n\<bar> < 2 ^ 53"
    by (simp add: safe_integer_def MAX_SAFE_INTEGER_def)
  then have "bit_length (nat \<bar>n\<bar>) - 53 = 0"
    using bit_length_le[of "nat \<bar>n\<bar>" 53] by simp
  then have "round_double n = sgn n * \<bar>n\<bar>"
    by (simp add: round_double_def Let_def)
  then show ?thesis by (simp add: mult_sgn_abs)
qed

lemma js_add_safe: "safe_integer (a + b) \<Longrightarrow> js_add a b = a + b"
  by (simp add: js_add_def round_double_safe)

lemma safe_integer_small [simp]: "\<bar>n\<bar> \<le> 9007199254740991 \<Longrightarrow> safe_integer n"
  by (simp add: safe_integer_def MAX_SAFE_INTEGER_def)

section \<open>Facts about the hook and the query utility\<close>

lemma useProducts_fields:
  "opt_getNextPageParam (useProducts svc options) = getNextPageParam"
  "opt_queryFn (useProducts svc options) = queryFn svc (pageSize_of options)"
  "initialPageParam (useProducts svc options) = 0"
  "opt_initialData (useProducts svc options) =
     (case initialData options of Some d \<Rightarrow> Some \<lparr>pages = [d], pageParams = [0]\<rparr> | None \<Rightarrow> None)"
  by (simp_all add: useProducts_def Let_def)

lemma client_options_eq:
  "client_options init = useProducts fetchProducts \<lparr>pageSize = None, initialData = init\<rparr>"
  by (simp add: client_options_def)

lemma pageSize_of_default [simp]: "pageSize_of \<lparr>pageSize = None, initialData = init\<rparr> = 20"
  by (simp add: pageSize_of_def)

lemma pageSize_of_Some [simp]: "pageSize_of \<lparr>pageSize = Some n, initialData = init\<rparr> = n"
  by (simp add: pageSize_of_def)

lemma getNextPageParam_safe:
  "safe_integer (skip p + limit p) \<Longrightarrow>
   getNextPageParam p =
     (if skip p + limit p < total p then Some (skip p + limit p) else None)"
  by (simp add: getNextPageParam_def Let_def js_add_safe)

lemma getNextPageParam_None_iff:
  "safe_integer (skip p + limit p) \<Longrightarrow>
   getNextPageParam p = None \<longleftrightarrow> total p \<le> skip p + limit p"
  by (auto simp: getNextPageParam_safe)

lemma getNextPageParam_Some_iff:
  "safe_integer (skip p + limit p) \<Longrightarrow>
   getNextPageParam p = Some q \<longleftrightarrow> skip p + limit p < total p \<and> q = skip p + limit p"
  by (auto simp: getNextPageParam_safe)

lemma hasNextPage_last:
  "cached s = Some d \<Longrightarrow> pages d \<noteq> [] \<Longrightarrow>
   safe_integer (skip (last (pages d)) + limit (last (pages d))) \<Longrightarrow>
   hasNextPage (query_result (useProducts svc options) s) \<longleftrightarrow>
     skip (last (pages d)) + limit (last (pages d)) < total (last (pages d))"
  by (auto simp: query_result_def nextPageParam_def useProducts_fields getNextPageParam_None_iff)

lemma cursor_exhausted:
  "cached s = Some d \<Longrightarrow> pages d \<noteq> [] \<Longrightarrow> \<not> hasNextPage (query_result opts s) \<Longrightarrow> cursor opts s = None"
  by (simp add: cursor_def query_result_def)

lemma fetchNextPage_exhausted:
  "cached s = Some d \<Longrightarrow> pages d \<noteq> [] \<Longrightarrow> \<not> hasNextPage (query_result opts s) \<Longrightarrow>
   fetchNextPage opts (s, net) = (s, net)"
  by (simp add: fetchNextPage_def cursor_exhausted)

lemma fetchNextPage_pending:
  "pending s \<noteq> None \<Longrightarrow> fetchNextPage opts (s, net) = (s, net)"
  by (simp add: fetchNextPage_def)

lemma fetchNextPage_idle:
  "pending s = None \<Longrightarrow> cursor opts s = Some p \<Longrightarrow>
   fetchNextPage opts (s, net) = startFetch opts p (s, net)"
  by (simp add: fetchNextPage_def)


lemma fetchNextPage_issued:
  assumes "pending s = None"
    and "pending (fst (fetchNextPage opts (s, net))) = Some (p, r)"
  shows "cursor opts s = Some p \<and> fst (opt_queryFn opts (Some p) net) = r"
proof (cases "cursor opts s")
  case None
  with assms show ?thesis by (simp add: fetchNextPage_def)
next
  case (Some q)
  with assms show ?thesis
    by (simp add: fetchNextPage_def startFetch_def split: prod.splits)
qed

lemma nextPageParam_data_cong:
  "cached s' = cached s \<Longrightarrow> nextPageParam opts s' = nextPageParam opts s"
  by (simp add: nextPageParam_def)

lemma cursor_data_cong: "cached s' = cached s \<Longrightarrow> cursor opts s' = cursor opts s"
  by (simp add: cursor_def nextPageParam_data_cong[of s' s] split: option.split)

lemma hasNextPage_data_cong: "cached s' = cached s \<Longrightarrow> hasNextPage (query_result opts s') = hasNextPage (query_result opts s)"
  by (simp add: query_result_def nextPageParam_def)

lemma startFetch_useProducts:
  "startFetch (useProducts svc options) p (s, net) =
     (s\<lparr>pending := Some (p, fst (svc (pageSize_of options) p net))\<rparr>,
      snd (svc (pageSize_of options) p net))"
  by (simp add: startFetch_def useProducts_fields queryFn_def split: prod.split)

lemma settle_idle: "pending s = None \<Longrightarrow> settle s = s"
  by (simp add: settle_def)

lemma settle_failed:
  "pending s = None \<Longrightarrow> settle (s\<lparr>pending := Some (p, Inl e)\<rparr>) = s\<lparr>failure := Some e\<rparr>"
  by (simp add: settle_def)

lemma settle_succeeded:
  "pending s = None \<Longrightarrow> settle (s\<lparr>pending := Some (p, Inr page)\<rparr>) =
     s\<lparr>cached := Some \<lparr>pages = (case cached s of None \<Rightarrow> [] | Some d \<Rightarrow> pages d) @ [page],
                      pageParams = (case cached s of None \<Rightarrow> [] | Some d \<Rightarrow> pageParams d) @ [p]\<rparr>,
       failure := None\<rparr>"
  by (cases "cached s") (simp_all add: settle_def Let_def)

lemma nextPageParam_error_update [simp]:
  "nextPageParam opts (s\<lparr>failure := e\<rparr>) = nextPageParam opts s"
  by (simp add: nextPageParam_def)

lemma cursor_error_update [simp]: "cursor opts (s\<lparr>failure := e\<rparr>) = cursor opts s"
  by (simp add: cursor_def split: option.split)

lemma hasNextPage_error_update [simp]: "hasNextPage (query_result opts (s\<lparr>failure := e\<rparr>)) = hasNextPage (query_result opts s)"
  by (simp add: query_result_def)

lemma loadNext_exhausted:
  "cached s = Some d \<Longrightarrow> pages d \<noteq> [] \<Longrightarrow> \<not> hasNextPage (query_result opts s) \<Longrightarrow> pending s = None \<Longrightarrow>
   loadNext opts (s, net) = (s, net)"
  by (simp add: loadNext_def fetchNextPage_exhausted settle_idle)

lemma loadNext_failure:
  assumes "pending s = None" and "cursor (useProducts svc options) s = Some p"
    and "fst (svc (pageSize_of options) p net) = Inl e"
  shows "loadNext (useProducts svc options) (s, net) =
           (s\<lparr>failure := Some e\<rparr>, snd (svc (pageSize_of options) p net))"
  using assms
  by (simp add: loadNext_def fetchNextPage_idle startFetch_useProducts settle_failed)

lemma loadNext_success:
  assumes "pending s = None" and "cursor (useProducts svc options) s = Some p"
    and "fst (svc (pageSize_of options) p net) = Inr page"
  shows "loadNext (useProducts svc options) (s, net) =
           (s\<lparr>cached := Some \<lparr>pages = (case cached s of None \<Rightarrow> [] | Some d \<Rightarrow> pages d) @ [page],
                      pageParams = (case cached s of None \<Rightarrow> [] | Some d \<Rightarrow> pageParams d) @ [p]\<rparr>,
              failure := None\<rparr>, snd (svc (pageSize_of options) p net))"
  using assms
  by (simp add: loadNext_def fetchNextPage_idle startFetch_useProducts settle_succeeded)



lemma mount_unseeded:
  "initialData options = None \<Longrightarrow>
   mount (useProducts svc options) net =
     (\<lparr>cached = None, failure = None, pending = Some (0, fst (svc (pageSize_of options) 0 net))\<rparr>,
      snd (svc (pageSize_of options) 0 net))"
  by (simp add: mount_def initialState_def useProducts_fields startFetch_useProducts Let_def)

lemma mount_seeded:
  "initialData options = Some seed \<Longrightarrow>
   mount (useProducts svc options) net =
     (\<lparr>cached = Some \<lparr>pages = [seed], pageParams = [0]\<rparr>, failure = None, pending = None\<rparr>, net)"
  by (simp add: mount_def initialState_def useProducts_fields Let_def)

section \<open>Facts about the presentation layer\<close>

lemma query_result_fields [simp]:
  "data (query_result opts s) = cached s"
  "hasNextPage (query_result opts s) \<longleftrightarrow> nextPageParam opts s \<noteq> None"
  "isFetchingNextPage (query_result opts s) \<longleftrightarrow> pending s \<noteq> None \<and> cached s \<noteq> None"
  "isLoading (query_result opts s) \<longleftrightarrow> pending s \<noteq> None \<and> cached s = None"
  "error (query_result opts s) = failure s"
  by (simp_all add: query_result_def)

lemma allProducts_Some [simp]: "allProducts (Some d) = concat (map products (pages d))"
  by (simp add: allProducts_def)

lemma allProducts_None [simp]: "allProducts None = []"
  by (simp add: allProducts_def)

lemma ProductListClient_error:
  "error r = Some e \<Longrightarrow>
   ProductListClient r = ErrorView ''Failed to load products'' (error_message e)"
  by (simp add: ProductListClient_def)

lemma render_error:
  "failure s = Some e \<Longrightarrow>
   render init s = ErrorView ''Failed to load products'' (error_message e)"
  by (simp add: render_def ProductListClient_error query_result_def)




lemma handleIntersection_fires_iff:
  "handleIntersection entries isL hasM Suc (0::nat) = Inr 1 \<longleftrightarrow>
     (\<exists>entry rest. entries = entry # rest \<and> isIntersecting entry) \<and> \<not> isL \<and> hasM"
  by (cases entries) (auto simp: handleIntersection_def)

lemma callback_calls_eq:
  "callback_calls entries isL hasM =
     (if (\<exists>entry rest. entries = entry # rest \<and> isIntersecting entry) \<and> \<not> isL \<and> hasM
      then 1 else 0)"
  by (cases entries) (auto simp: callback_calls_def handleIntersection_def)

lemma step_Intersection:
  "step init (Intersection entries) (s, net) =
     (if failure s = None \<and> pending s = None
         \<and> (\<exists>entry rest. entries = entry # rest \<and> isIntersecting entry)
         \<and> hasNextPage (query_result (client_options init) s)
      then fetchNextPage (client_options init) (s, net) else (s, net))"
  by (cases entries; cases "failure s"; cases "cached s")
     (auto simp: step_def render_def ProductListClient_def handleIntersection_def
        query_result_def fetchNextPage_def)

lemma step_request_only_when_gated:
  assumes "snd (step init ev (s, net)) \<noteq> net"
  shows "(\<exists>entry rest. ev = Intersection (entry # rest) \<and> isIntersecting entry)
       \<and> pending s = None \<and> hasNextPage (query_result (client_options init) s)"
proof (cases ev)
  case Settled
  with assms show ?thesis by (simp add: step_def)
next
  case (Intersection entries)
  with assms have g: "failure s = None \<and> pending s = None
         \<and> (\<exists>entry rest. entries = entry # rest \<and> isIntersecting entry)
         \<and> hasNextPage (query_result (client_options init) s)"
    by (auto simp: step_Intersection split: if_splits)
  with Intersection show ?thesis by auto
qed

lemma step_exhausted:
  assumes "\<not> hasNextPage (query_result (client_options init) s)" and "pending s = None"
  shows "step init ev (s, net) = (s, net)"
proof (cases ev)
  case Settled
  with assms show ?thesis by (simp add: step_def settle_idle)
next
  case (Intersection entries)
  with assms show ?thesis by (simp add: step_Intersection)
qed

lemma run_exhausted:
  assumes "\<not> hasNextPage (query_result (client_options init) s)" and "pending s = None"
  shows "run init evs (s, net) = (s, net)"
  by (induction evs) (simp_all add: step_exhausted[OF assms])

section \<open>Loading the pages of a served catalog\<close>












section \<open>The claims\<close>

subsection \<open>C1: one request per call\<close>

text \<open>
  C1, as amended. For every valid pair \<open>(limit, skip)\<close> (limit positive, skip not negative,
  both safe integers) \<open>fetchProducts\<close> issues exactly one request: a GET of
  \<open>https://dummyjson.com/products?limit={limit}&skip={skip}\<close>, a URL that tells any two
  valid pairs apart. The call either resolves to the page decoded from the body of a
  success response, handed on unchanged, or fails with one of the three error kinds.
  Nothing compares the page's \<open>limit\<close> and \<open>skip\<close> with the requested values.
\<close>

theorem fetchProducts_one_request:
  assumes "valid_args l s" and "valid_args l' s'"
  shows "requests (snd (fetchProducts l s net)) =
           requests net @ [\<lparr>request_method = ''GET'',
             url = ''https://dummyjson.com/products?limit='' @ show_number l
                     @ ''&skip='' @ show_number s,
             revalidate = 60\<rparr>]
         \<and> respond (snd (fetchProducts l s net)) = respond net
         \<and> (products_url l' s' = products_url l s \<longleftrightarrow> l' = l \<and> s' = s)
         \<and> (case fst (fetchProducts l s net) of
              Inr page \<Rightarrow>
                (\<exists>r. respond net (length (requests net)) (products_request l s) = Responded r
                      \<and> ok r \<and> json r = Parsed page)
            | Inl e \<Rightarrow> (\<exists>m. e = TransportError m \<or> e = FetchFailed m \<or> e = DecodeError m))"
proof -
  have 1: "requests (snd (fetchProducts l s net)) =
           requests net @ [\<lparr>request_method = ''GET'',
             url = ''https://dummyjson.com/products?limit='' @ show_number l
                     @ ''&skip='' @ show_number s,
             revalidate = 60\<rparr>]"
    by (simp add: fetchProducts_requests products_request_def products_url_def API_BASE_URL_def)
  have 2: "respond (snd (fetchProducts l s net)) = respond net"
    by (simp add: fetchProducts_requests)
  have 3: "products_url l' s' = products_url l s \<longleftrightarrow> l' = l \<and> s' = s"
    using assms products_url_inj[of l' s' l s] unfolding valid_args_def by auto
  have 4: "(case fst (fetchProducts l s net) of
              Inr page \<Rightarrow>
                (\<exists>r. respond net (length (requests net)) (products_request l s) = Responded r
                      \<and> ok r \<and> json r = Parsed page)
            | Inl e \<Rightarrow> (\<exists>m. e = TransportError m \<or> e = FetchFailed m \<or> e = DecodeError m))"
    by (simp add: fetchProducts_result split: fetch_outcome_of.split json_body_of.split)
  from 1 2 3 4 show ?thesis by blast
qed

theorem fetchProducts_one_request_witness:
  "valid_args 20 0 \<and> valid_args 20 20
   \<and> requests (snd (fetchProducts 20 0 (always (ok_response first_of_100)))) =
       [\<lparr>request_method = ''GET'', url = ''https://dummyjson.com/products?limit=20&skip=0'',
         revalidate = 60\<rparr>]
   \<and> products_url 20 20 \<noteq> products_url 20 0"
proof -
  have v: "valid_args 20 0" "valid_args 20 20"
    by (simp_all add: valid_args_def MAX_SAFE_INTEGER_def)
  from fetchProducts_one_request[OF v, of "always (ok_response first_of_100)"] v
  show ?thesis by (simp add: always_def show_number_examples)
qed

text \<open>
  The claim as stated fails: asked for 20 products from offset 180, a remote side that
  answers with the 14 remaining ones and \<open>limit = 14\<close> makes the call resolve to a page
  whose \<open>limit\<close> is not the requested one.
\<close>

theorem fetchProducts_limit_not_echoed:
  "valid_args 20 180
   \<and> fst (fetchProducts 20 180 (always (ok_response short_page))) = Inr short_page
   \<and> limit short_page \<noteq> 20"
  by (simp add: valid_args_def MAX_SAFE_INTEGER_def fetchProducts_result always_def
      ok_response_def short_page_def)

subsection \<open>C3: the three failures\<close>

text \<open>
  C3, as amended. A response with a non-success status makes \<open>fetchProducts\<close> fail with a
  \<open>FetchFailed\<close> error whose message ends in the response's status text; a rejected
  \<open>fetch\<close> makes it fail with a \<open>TransportError\<close>, and a success response whose body
  \<open>response.json()\<close> cannot decode with a \<open>DecodeError\<close>, each carrying, unchanged, what the
  platform rejected with. A body that does decode is returned as it is, whatever its
  shape: a body that does not match the shape of a page is no error. The code defines no
  error classes of its own: what a caller catches for \<open>FetchFailed\<close> is a plain \<open>Error\<close>
  with that message, and for the other two the platform's rejection, so the three are
  told apart exactly as far as these caught values differ.
\<close>

theorem fetchProducts_failures:
  "(respond net (length (requests net)) (products_request l s) = Responded r \<and> \<not> ok r \<longrightarrow>
      fst (fetchProducts l s net) =
        Inl (FetchFailed (''Failed to fetch products: '' @ statusText r)))
   \<and> (respond net (length (requests net)) (products_request l s) = Rejected m \<longrightarrow>
      fst (fetchProducts l s net) = Inl (TransportError m))
   \<and> (respond net (length (requests net)) (products_request l s) = Responded r
        \<and> ok r \<and> json r = Malformed m \<longrightarrow>
      fst (fetchProducts l s net) = Inl (DecodeError m))
   \<and> (respond net (length (requests net)) (products_request l s) = Responded r
        \<and> ok r \<and> json r = Parsed v \<longrightarrow>
      fst (fetchProducts l s net) = Inr v)
   \<and> thrown (FetchFailed b) = \<lparr>error_class = ''Error'', error_text = b\<rparr>
   \<and> (thrown (TransportError x) = thrown (DecodeError y) \<longleftrightarrow> x = y)
   \<and> (thrown (TransportError x) = thrown (FetchFailed b) \<longleftrightarrow>
        x = \<lparr>error_class = ''Error'', error_text = b\<rparr>)
   \<and> (thrown (DecodeError y) = thrown (FetchFailed b) \<longleftrightarrow>
        y = \<lparr>error_class = ''Error'', error_text = b\<rparr>)"
  by (simp add: fetchProducts_result)

theorem fetchProducts_failures_witness:
  "fst (fetchProducts 20 0 (always (Responded not_found))) =
     Inl (FetchFailed ''Failed to fetch products: Not Found'')
   \<and> fst (fetchProducts 20 0 (always (Rejected network_down)))
       = (Inl (TransportError network_down) :: js_error fetch_error_of + json_value)
   \<and> fst (fetchProducts 20 0 (always (Responded broken_body))) =
     Inl (DecodeError unexpected_token)
   \<and> fst (fetchProducts 20 0 (always (Responded empty_object_body))) = Inr (OtherJson ''{}'')
   \<and> thrown (TransportError network_down) \<noteq> thrown (DecodeError unexpected_token)
   \<and> thrown (TransportError network_down)
       \<noteq> thrown (FetchFailed ''Failed to fetch products: Not Found'')
   \<and> thrown (DecodeError unexpected_token)
       \<noteq> thrown (FetchFailed ''Failed to fetch products: Not Found'')"
proof -
  have ne: "network_down \<noteq> unexpected_token"
    "network_down \<noteq> \<lparr>error_class = ''Error'', error_text = ''Failed to fetch products: Not Found''\<rparr>"
    "unexpected_token \<noteq> \<lparr>error_class = ''Error'', error_text = ''Failed to fetch products: Not Found''\<rparr>"
    by (simp_all add: network_down_def unexpected_token_def)
  have r: "respond (always (Responded not_found)) (length (requests (always (Responded not_found))))
             (products_request 20 0) = Responded not_found" "\<not> ok not_found"
    "statusText not_found = ''Not Found''"
    "respond (always (Rejected network_down))
             (length (requests (always (Rejected network_down :: (json_value, js_error) fetch_outcome_of))))
             (products_request 20 0) = (Rejected network_down :: (json_value, js_error) fetch_outcome_of)"
    "respond (always (Responded broken_body)) (length (requests (always (Responded broken_body))))
             (products_request 20 0) = Responded broken_body"
    "ok broken_body" "json broken_body = Malformed unexpected_token"
    "respond (always (Responded empty_object_body))
             (length (requests (always (Responded empty_object_body))))
             (products_request 20 0) = Responded empty_object_body"
    "ok empty_object_body" "json empty_object_body = Parsed (OtherJson ''{}'')"
    by (simp_all add: always_def not_found_def broken_body_def empty_object_body_def)
  from
    fetchProducts_failures[where net = "always (Responded not_found)" and l = 20 and s = 0
      and r = not_found and x = network_down and y = unexpected_token
      and b = "''Failed to fetch products: Not Found''"]
    fetchProducts_failures[where net =
        "always (Rejected network_down) :: (json_value, js_error) network_of" and l = 20 and s = 0
      and m = network_down]
    fetchProducts_failures[where net = "always (Responded broken_body)" and l = 20 and s = 0
      and r = broken_body and m = unexpected_token]
    fetchProducts_failures[where net = "always (Responded empty_object_body)" and l = 20
      and s = 0 and r = empty_object_body and v = "OtherJson ''{}''"]
    r ne
  show ?thesis by simp
qed

text \<open>
  The claim as stated fails: the spec counts a body that does not match the shape of a
  page as a decode error, but the code returns whatever \<open>response.json()\<close> decodes. A
  success response with the body \<open>{}\<close> resolves to that value and no error is raised.
\<close>

theorem wrong_shape_body_is_no_error:
  "ok empty_object_body
   \<and> json empty_object_body = Parsed (OtherJson ''{}'')
   \<and> \<not> has_page_shape (OtherJson ''{}'')
   \<and> fst (fetchProducts 20 0 (always (Responded empty_object_body))) = Inr (OtherJson ''{}'')"
  by (simp add: fetchProducts_result always_def empty_object_body_def)

subsection \<open>C2: has-more and exhaustion\<close>




subsection \<open>C4: a failed load leaves the state alone\<close>

text \<open>
  C4. Take any state and a \<open>loadNext()\<close> call whose request, for the offset \<open>p\<close>, fails
  with \<open>e\<close>. Afterwards the pages are the same (nothing is appended), the cursor and
  has-more are the same, nothing is in flight, and \<open>e\<close> is recorded for display. When the
  call itself issued the request (nothing was in flight before), \<open>p\<close> was the cursor,
  exactly one request went out, and a retry, on whatever the network then is, requests
  the same offset \<open>p\<close> again.
\<close>

theorem failed_loadNext_keeps_state:
  assumes "pending (fst (fetchNextPage (useProducts fetchProducts options) (s, net)))
             = Some (p, Inl e)"
  shows "cached (fst (loadNext (useProducts fetchProducts options) (s, net))) = cached s
       \<and> allProducts (cached (fst (loadNext (useProducts fetchProducts options) (s, net))))
           = allProducts (cached s)
       \<and> cursor (useProducts fetchProducts options)
            (fst (loadNext (useProducts fetchProducts options) (s, net)))
           = cursor (useProducts fetchProducts options) s
       \<and> hasNextPage (query_result (useProducts fetchProducts options)
            (fst (loadNext (useProducts fetchProducts options) (s, net))))
           = hasNextPage (query_result (useProducts fetchProducts options) s)
       \<and> pending (fst (loadNext (useProducts fetchProducts options) (s, net))) = None
       \<and> failure (fst (loadNext (useProducts fetchProducts options) (s, net))) = Some e
       \<and> (pending s = None \<longrightarrow>
            cursor (useProducts fetchProducts options) s = Some p
          \<and> loadNext (useProducts fetchProducts options) (s, net) =
              (s\<lparr>failure := Some e\<rparr>,
               net\<lparr>requests := requests net @ [products_request (pageSize_of options) p]\<rparr>)
          \<and> (\<forall>net2. requests (snd (loadNext (useProducts fetchProducts options)
                        (fst (loadNext (useProducts fetchProducts options) (s, net)), net2)))
                     = requests net2 @ [products_request (pageSize_of options) p]))"
proof (cases "pending s")
  case (Some x)
  let ?opts = "useProducts fetchProducts options"
  from Some have f: "fetchNextPage ?opts (s, net) = (s, net)"
    by (simp add: fetchNextPage_pending)
  with assms have x: "pending s = Some (p, Inl e)" by simp
  have l: "fst (loadNext ?opts (s, net)) = s\<lparr>failure := Some e, pending := None\<rparr>"
    by (simp add: loadNext_def f settle_def x)
  have d: "cached (s\<lparr>failure := Some e, pending := None\<rparr>) = cached s" by simp
  show ?thesis
    using Some cursor_data_cong[OF d, of ?opts] hasNextPage_data_cong[OF d, of ?opts]
    by (simp add: l)
next
  case None
  let ?opts = "useProducts fetchProducts options"
  from fetchNextPage_issued[OF None assms]
  have cur: "cursor ?opts s = Some p"
    and res: "fst (fetchProducts (pageSize_of options) p net) = Inl e"
    by (simp_all add: useProducts_fields queryFn_def)
  have L: "loadNext ?opts (s, net) =
           (s\<lparr>failure := Some e\<rparr>,
            net\<lparr>requests := requests net @ [products_request (pageSize_of options) p]\<rparr>)"
    using loadNext_failure[OF None cur res] by (simp add: fetchProducts_requests)
  have idle: "pending (s\<lparr>failure := Some e\<rparr>) = None" using None by simp
  have cur': "cursor ?opts (s\<lparr>failure := Some e\<rparr>) = Some p" using cur by simp
  have retry: "requests (snd (loadNext ?opts (s\<lparr>failure := Some e\<rparr>, net2)))
                  = requests net2 @ [products_request (pageSize_of options) p]" for net2
    by (simp add: loadNext_def fetchNextPage_idle[OF idle cur'] startFetch_useProducts
        fetchProducts_requests)
  show ?thesis using None cur retry by (simp add: L)
qed

theorem failed_loadNext_keeps_state_witness:
  "pending (fst (fetchNextPage (client_options None)
                  (loaded_one, always (Responded server_error)))) =
     Some (20, Inl (FetchFailed ''Failed to fetch products: Internal Server Error''))
   \<and> pending loaded_one = None
   \<and> cached (fst (loadNext (client_options None) (loaded_one, always (Responded server_error))))
       = cached loaded_one
   \<and> loadNext (client_options None) (loaded_one, always (Responded server_error)) =
       (loaded_one\<lparr>failure := Some (FetchFailed ''Failed to fetch products: Internal Server Error'')\<rparr>,
        (always (Responded server_error))
          \<lparr>requests := requests (always (Responded server_error)) @ [products_request 20 20]\<rparr>)"
proof -
  let ?options = "\<lparr>pageSize = None, initialData = None\<rparr>"
  let ?net = "always (Responded server_error)"
  have i: "pending loaded_one = None" by (simp add: loaded_one_def)
  have c: "cursor (useProducts fetchProducts ?options) loaded_one = Some 20"
    by (simp add: cursor_def nextPageParam_def useProducts_fields getNextPageParam_safe
        loaded_one_def)
  have f: "fst (fetchProducts 20 20 ?net) =
       Inl (FetchFailed ''Failed to fetch products: Internal Server Error'')"
    by (simp add: fetchProducts_result always_def server_error_def)
  have a: "pending (fst (fetchNextPage (useProducts fetchProducts ?options) (loaded_one, ?net))) =
     Some (20, Inl (FetchFailed ''Failed to fetch products: Internal Server Error''))"
    by (simp add: fetchNextPage_idle[OF i c] startFetch_useProducts f)
  from failed_loadNext_keeps_state[OF a] a i
  show ?thesis by (simp add: client_options_eq)
qed

subsection \<open>C5: the flattened view\<close>




subsection \<open>C6: the scroll trigger\<close>

text \<open>
  C6. One run of the observer callback calls \<open>onLoadMore\<close> at most once, and it does so
  exactly when the first entry is intersecting, no load is in flight and there is more
  to load; otherwise it leaves everything as it was (or throws, on an empty batch,
  before calling anything). In particular, while has-more is false no batch of entries,
  intersecting or not, loading or not, ever triggers a call. The two flags of the gate
  are the hook's: whenever the component renders the grid, it passes
  \<open>isFetchingNextPage\<close> as \<open>isLoading\<close> and \<open>hasNextPage\<close> as \<open>hasMore\<close>.
\<close>

theorem scroll_trigger_gated:
  "(handleIntersection entries isL hasM Suc (0::nat) = Inr 1 \<longleftrightarrow>
      (\<exists>entry rest. entries = entry # rest \<and> isIntersecting entry) \<and> \<not> isL \<and> hasM)
   \<and> callback_calls entries isL hasM \<le> 1
   \<and> (callback_calls entries isL hasM = 1 \<longleftrightarrow>
      (\<exists>entry rest. entries = entry # rest \<and> isIntersecting entry) \<and> \<not> isL \<and> hasM)
   \<and> handleIntersection entries isL hasM onLoadMore st =
       (if entries = [] then Inl TypeError
        else if (\<exists>entry rest. entries = entry # rest \<and> isIntersecting entry) \<and> \<not> isL \<and> hasM
        then Inr (onLoadMore st) else Inr st)
   \<and> sum_list (map (\<lambda>(es, l). callback_calls es l False) batches) = 0
   \<and> (ProductListClient r = ProductGrid props \<longrightarrow>
        grid_isLoading props = isFetchingNextPage r \<and> hasMore props = hasNextPage r)"
proof -
  have h: "handleIntersection entries isL hasM onLoadMore st =
       (if entries = [] then Inl TypeError
        else if (\<exists>entry rest. entries = entry # rest \<and> isIntersecting entry) \<and> \<not> isL \<and> hasM
        then Inr (onLoadMore st) else Inr st)"
    by (cases entries) (auto simp: handleIntersection_def)
  have z: "sum_list (map (\<lambda>(es, l). callback_calls es l False) batches) = 0"
    by (induction batches) (auto simp: callback_calls_eq)
  have w: "ProductListClient r = ProductGrid props \<longrightarrow>
        grid_isLoading props = isFetchingNextPage r \<and> hasMore props = hasNextPage r"
    by (auto simp: ProductListClient_def split: option.splits if_splits)
  from handleIntersection_fires_iff[of entries isL hasM] h z w show ?thesis
    by (simp add: callback_calls_eq)
qed

theorem scroll_trigger_gated_witness:
  "handleIntersection [\<lparr>isIntersecting = True\<rparr>] False True Suc (0::nat) = Inr 1
   \<and> callback_calls [\<lparr>isIntersecting = True\<rparr>] False True = 1
   \<and> callback_calls [\<lparr>isIntersecting = True\<rparr>] True True = 0
   \<and> callback_calls [\<lparr>isIntersecting = True\<rparr>] False False = 0
   \<and> callback_calls [\<lparr>isIntersecting = False\<rparr>] False True = 0
   \<and> ProductListClient (query_result (client_options None) loaded_one) =
       ProductGrid \<lparr>initialProducts = [prodA], grid_isLoading = False, hasMore = True\<rparr>
   \<and> isFetchingNextPage (query_result (client_options None) loaded_one) = False
   \<and> hasNextPage (query_result (client_options None) loaded_one) = True"
proof -
  let ?r = "query_result (client_options None) loaded_one"
  let ?props = "\<lparr>initialProducts = [prodA], grid_isLoading = False, hasMore = True\<rparr>"
  have n: "nextPageParam (client_options None) loaded_one = Some 20"
    by (simp add: nextPageParam_def client_options_eq useProducts_fields getNextPageParam_safe
        loaded_one_def)
  have c: "cached loaded_one =
      Some \<lparr>pages = [\<lparr>products = [prodA], total = 40, skip = 0, limit = 20\<rparr>], pageParams = [0]\<rparr>"
    and i: "pending loaded_one = None" and e: "failure loaded_one = None"
    by (simp_all add: loaded_one_def)
  have g: "ProductListClient ?r = ProductGrid ?props"
    by (simp add: ProductListClient_def n c i e)
  from scroll_trigger_gated[of "[\<lparr>isIntersecting = True\<rparr>]" False True Suc 0 "[]" ?r ?props]
    scroll_trigger_gated[of "[\<lparr>isIntersecting = True\<rparr>]" True True Suc 0 "[]" ?r ?props]
    scroll_trigger_gated[of "[\<lparr>isIntersecting = True\<rparr>]" False False Suc 0 "[]" ?r ?props]
    scroll_trigger_gated[of "[\<lparr>isIntersecting = False\<rparr>]" False True Suc 0 "[]" ?r ?props]
    g
  show ?thesis by simp
qed

subsection \<open>C7: what is shown after a failure\<close>

text \<open>
  C7, as amended. When a load fails with error \<open>e\<close>, the component renders the error
  panel alone, headed "Failed to load products" and carrying the message of \<open>e\<close>; for a
  non-success status that message is "Failed to fetch products: " followed by the status
  text. The pages held by the hook, and so the all-products value computed from them,
  are what they were before the failure (empty if nothing had been loaded), but the
  grid that would show them is not rendered while the error is present: whatever else
  the hook returns, an error makes the component return the error panel.
\<close>

theorem failed_fetch_shows_error_view:
  assumes "pending s = None"
    and "cursor (client_options init) s = Some p"
    and "fst (fetchProducts 20 p net) = Inl e"
  shows "render init (fst (loadNext (client_options init) (s, net))) =
           ErrorView ''Failed to load products'' (error_message e)
       \<and> (\<forall>r. respond net (length (requests net)) (products_request 20 p) = Responded r
               \<and> \<not> ok r \<longrightarrow>
             error_message e = ''Failed to fetch products: '' @ statusText r)
       \<and> cached (fst (loadNext (client_options init) (s, net))) = cached s
       \<and> allProducts (cached (fst (loadNext (client_options init) (s, net)))) = allProducts (cached s)
       \<and> (cached s = None \<longrightarrow>
            allProducts (cached (fst (loadNext (client_options init) (s, net)))) = [])
       \<and> (error r' = Some e \<longrightarrow>
            ProductListClient r' = ErrorView ''Failed to load products'' (error_message e))"
proof -
  have f: "fst (fetchProducts (pageSize_of \<lparr>pageSize = None, initialData = init\<rparr>) p net) = Inl e"
    using assms(3) by simp
  have l: "fst (loadNext (client_options init) (s, net)) = s\<lparr>failure := Some e\<rparr>"
    using loadNext_failure[OF assms(1) assms(2)[unfolded client_options_eq] f]
    by (simp add: client_options_eq)
  have m: "error_message e = ''Failed to fetch products: '' @ statusText r"
    if "respond net (length (requests net)) (products_request 20 p) = Responded r" and "\<not> ok r"
    for r
    using assms(3) that by (auto simp: fetchProducts_result)
  show ?thesis using m by (simp add: l render_error ProductListClient_error)
qed

theorem failed_fetch_shows_error_view_witness:
  "pending \<lparr>cached = None, failure = None, pending = None\<rparr> = None
   \<and> cursor (client_options None) \<lparr>cached = None, failure = None, pending = None\<rparr> = Some 0
   \<and> fst (fetchProducts 20 0 (always (Responded server_error))) =
       Inl (FetchFailed ''Failed to fetch products: Internal Server Error'')
   \<and> respond (always (Responded server_error)) 0 (products_request 20 0) = Responded server_error
   \<and> \<not> ok server_error
   \<and> render None (fst (loadNext (client_options None)
               (\<lparr>cached = None, failure = None, pending = None\<rparr>, always (Responded server_error)))) =
       ErrorView ''Failed to load products'' ''Failed to fetch products: Internal Server Error''
   \<and> allProducts (cached (fst (loadNext (client_options None)
               (\<lparr>cached = None, failure = None, pending = None\<rparr>, always (Responded server_error)))))
       = []
   \<and> ProductListClient
        \<lparr>data = Some \<lparr>pages = [first_of_100], pageParams = [0]\<rparr>, hasNextPage = True,
         isFetchingNextPage = False, isLoading = False,
         error = Some (FetchFailed ''Failed to fetch products: Internal Server Error'')\<rparr> =
       ErrorView ''Failed to load products'' ''Failed to fetch products: Internal Server Error''"
proof -
  let ?s = "\<lparr>cached = None, failure = None, pending = None\<rparr>"
  have i: "pending ?s = None" by simp
  have c: "cursor (client_options None) ?s = Some 0"
    by (simp add: cursor_def client_options_eq useProducts_fields)
  have f: "fst (fetchProducts 20 0 (always (Responded server_error))) =
       Inl (FetchFailed ''Failed to fetch products: Internal Server Error'')"
    by (simp add: fetchProducts_result always_def server_error_def)
  have r: "respond (always (Responded server_error)) 0 (products_request 20 0)
             = Responded server_error" "\<not> ok server_error"
    by (simp_all add: always_def server_error_def)
  from failed_fetch_shows_error_view[OF i c f, where r' =
      "\<lparr>data = Some \<lparr>pages = [first_of_100], pageParams = [0]\<rparr>, hasNextPage = True,
        isFetchingNextPage = False, isLoading = False,
        error = Some (FetchFailed ''Failed to fetch products: Internal Server Error'')\<rparr>"] i c f r
  show ?thesis by simp
qed

text \<open>
  The claim as stated fails: with one product on screen, a failed load of the next page
  replaces the grid by the error panel, so the rendered list does not remain.
\<close>

theorem error_view_replaces_grid:
  "render None loaded_one =
     ProductGrid \<lparr>initialProducts = [prodA], grid_isLoading = False, hasMore = True\<rparr>
   \<and> render None (fst (loadNext (client_options None) (loaded_one, always (Responded server_error)))) =
       ErrorView ''Failed to load products'' ''Failed to fetch products: Internal Server Error''
   \<and> ErrorView ''Failed to load products'' ''Failed to fetch products: Internal Server Error''
       \<noteq> ProductGrid \<lparr>initialProducts = [prodA], grid_isLoading = False, hasMore = True\<rparr>"
proof -
  let ?options = "\<lparr>pageSize = None, initialData = None\<rparr>"
  let ?e = "FetchFailed ''Failed to fetch products: Internal Server Error''"
  have h: "hasNextPage (query_result (client_options None) loaded_one)"
    by (simp add: query_result_def nextPageParam_def client_options_eq useProducts_fields
      getNextPageParam_safe loaded_one_def)
  have v: "render None loaded_one =
     ProductGrid \<lparr>initialProducts = [prodA], grid_isLoading = False, hasMore = True\<rparr>"
    using h by (simp add: render_def ProductListClient_def query_result_def loaded_one_def)
  have i: "pending loaded_one = None" by (simp add: loaded_one_def)
  have c: "cursor (useProducts fetchProducts ?options) loaded_one = Some 20"
    by (simp add: cursor_def nextPageParam_def useProducts_fields getNextPageParam_safe
        loaded_one_def)
  have f: "fst (fetchProducts (pageSize_of ?options) 20 (always (Responded server_error))) = Inl ?e"
    by (simp add: fetchProducts_result always_def server_error_def)
  have "fst (loadNext (client_options None) (loaded_one, always (Responded server_error)))
          = loaded_one\<lparr>failure := Some ?e\<rparr>"
    using loadNext_failure[OF i c f] by (simp add: client_options_eq)
  then show ?thesis using v by (simp add: render_error)
qed

subsection \<open>C8: the second request\<close>

text \<open>
  C8. If \<open>fetchProducts(20, 0)\<close> resolves to a page with total 100, skip 0 and limit 20,
  then after the mounted hook has taken that page in, has-more is true and the next
  \<open>loadNext()\<close> calls \<open>fetchProducts(20, 20)\<close>: one request, for limit 20 and skip 20.
\<close>

theorem first_page_then_next_offset:
  assumes "fst (fetchProducts 20 0 net) = Inr page"
    and "total page = 100" and "skip page = 0" and "limit page = 20"
  shows "mount (client_options None) net =
           (\<lparr>cached = None, failure = None, pending = Some (0, Inr page)\<rparr>,
            net\<lparr>requests := requests net @ [products_request 20 0]\<rparr>)
       \<and> settle \<lparr>cached = None, failure = None, pending = Some (0, Inr page)\<rparr> =
           \<lparr>cached = Some \<lparr>pages = [page], pageParams = [0]\<rparr>, failure = None, pending = None\<rparr>
       \<and> hasNextPage (query_result (client_options None) \<lparr>cached = Some \<lparr>pages = [page], pageParams = [0]\<rparr>, failure = None, pending = None\<rparr>)
       \<and> fetchNextPage (client_options None)
           (\<lparr>cached = Some \<lparr>pages = [page], pageParams = [0]\<rparr>, failure = None, pending = None\<rparr>,
            net\<lparr>requests := requests net @ [products_request 20 0]\<rparr>) =
           (\<lparr>cached = Some \<lparr>pages = [page], pageParams = [0]\<rparr>, failure = None,
             pending = Some (20, fst (fetchProducts 20 20
                         (net\<lparr>requests := requests net @ [products_request 20 0]\<rparr>)))\<rparr>,
            snd (fetchProducts 20 20 (net\<lparr>requests := requests net @ [products_request 20 0]\<rparr>)))
       \<and> requests (snd (loadNext (client_options None)
           (\<lparr>cached = Some \<lparr>pages = [page], pageParams = [0]\<rparr>, failure = None, pending = None\<rparr>,
            net\<lparr>requests := requests net @ [products_request 20 0]\<rparr>))) =
           requests net @ [products_request 20 0, products_request 20 20]"
proof -
  let ?opts = "client_options None"
  let ?s1 = "\<lparr>cached = None, failure = None, pending = Some (0, Inr page)\<rparr>"
  let ?s2 = "\<lparr>cached = Some \<lparr>pages = [page], pageParams = [0]\<rparr>, failure = None, pending = None\<rparr>"
  let ?net1 = "net\<lparr>requests := requests net @ [products_request 20 0]\<rparr>"
  have m: "mount ?opts net = (?s1, ?net1)"
    using assms(1) by (simp add: client_options_eq mount_unseeded fetchProducts_requests)
  have s: "settle ?s1 = ?s2" by (simp add: settle_def)
  have np: "nextPageParam ?opts ?s2 = Some 20"
    using assms(2-4)
    by (simp add: nextPageParam_def client_options_eq useProducts_fields getNextPageParam_Some_iff)
  have h: "hasNextPage (query_result ?opts ?s2)" by (simp add: query_result_def np)
  have c: "cursor ?opts ?s2 = Some 20" by (simp add: cursor_def np)
  have f: "fetchNextPage ?opts (?s2, ?net1) =
             (?s2\<lparr>pending := Some (20, fst (fetchProducts 20 20 ?net1))\<rparr>,
              snd (fetchProducts 20 20 ?net1))"
    using fetchNextPage_idle[of ?s2 ?opts 20 ?net1] c
    by (simp add: client_options_eq startFetch_useProducts)
  have r: "requests (snd (loadNext ?opts (?s2, ?net1))) =
             requests net @ [products_request 20 0, products_request 20 20]"
    by (simp add: loadNext_def f fetchProducts_requests)
  have f': "fetchNextPage ?opts (?s2, ?net1) =
             (\<lparr>cached = Some \<lparr>pages = [page], pageParams = [0]\<rparr>, failure = None,
               pending = Some (20, fst (fetchProducts 20 20 ?net1))\<rparr>,
              snd (fetchProducts 20 20 ?net1))"
    by (simp add: f)
  from m s h f' r show ?thesis by blast
qed

theorem first_page_then_next_offset_witness:
  "fst (fetchProducts 20 0 (always (ok_response first_of_100))) = Inr first_of_100
   \<and> total first_of_100 = 100 \<and> skip first_of_100 = 0 \<and> limit first_of_100 = 20
   \<and> hasNextPage (query_result (client_options None) \<lparr>cached = Some \<lparr>pages = [first_of_100], pageParams = [0]\<rparr>, failure = None, pending = None\<rparr>)
   \<and> map url (requests (snd (loadNext (client_options None)
       (\<lparr>cached = Some \<lparr>pages = [first_of_100], pageParams = [0]\<rparr>, failure = None, pending = None\<rparr>,
        (always (ok_response first_of_100))
          \<lparr>requests := requests (always (ok_response first_of_100)) @ [products_request 20 0]\<rparr>)))) =
       [''https://dummyjson.com/products?limit=20&skip=0'',
        ''https://dummyjson.com/products?limit=20&skip=20'']"
proof -
  let ?net = "always (ok_response first_of_100)"
  have f: "fst (fetchProducts 20 0 ?net) = Inr first_of_100"
    by (simp add: fetchProducts_result always_def ok_response_def)
  have t: "total first_of_100 = 100" "skip first_of_100 = 0" "limit first_of_100 = 20"
    by (simp_all add: first_of_100_def)
  have u: "url (products_request 20 0) = ''https://dummyjson.com/products?limit=20&skip=0''"
    "url (products_request 20 20) = ''https://dummyjson.com/products?limit=20&skip=20''"
    by (simp_all add: products_request_def products_url_def API_BASE_URL_def show_number_examples)
  have e: "requests ?net = []" by (simp add: always_def)
  from first_page_then_next_offset[OF f t]
  have h: "hasNextPage (query_result (client_options None) \<lparr>cached = Some \<lparr>pages = [first_of_100], pageParams = [0]\<rparr>, failure = None, pending = None\<rparr>)"
    and r: "requests (snd (loadNext (client_options None)
       (\<lparr>cached = Some \<lparr>pages = [first_of_100], pageParams = [0]\<rparr>, failure = None, pending = None\<rparr>,
        ?net\<lparr>requests := requests ?net @ [products_request 20 0]\<rparr>))) =
       requests ?net @ [products_request 20 0, products_request 20 20]"
    by blast+
  have "map url (requests (snd (loadNext (client_options None)
       (\<lparr>cached = Some \<lparr>pages = [first_of_100], pageParams = [0]\<rparr>, failure = None, pending = None\<rparr>,
        ?net\<lparr>requests := requests ?net @ [products_request 20 0]\<rparr>)))) =
       [''https://dummyjson.com/products?limit=20&skip=0'',
        ''https://dummyjson.com/products?limit=20&skip=20'']"
    by (simp only: r) (simp add: e u)
  with f t h show ?thesis by blast
qed

subsection \<open>C9: seeding\<close>

text \<open>
  C9. Mounted with a pre-fetched page of skip 0, limit 20 and total 20, the hook holds
  exactly that page, has-more is false, and no request is issued: not by mounting, not
  by a \<open>loadNext()\<close>, and not by anything the observer reports afterwards. The grid shows
  the seeded products with has-more false.
\<close>

theorem seeded_mount_is_exhausted:
  assumes "total seed = 20" and "skip seed = 0" and "limit seed = 20"
  shows "mount (client_options (Some seed)) net =
           (\<lparr>cached = Some \<lparr>pages = [seed], pageParams = [0]\<rparr>, failure = None, pending = None\<rparr>, net)
       \<and> \<not> hasNextPage (query_result (client_options (Some seed)) (fst (mount (client_options (Some seed)) net)))
       \<and> requests (snd (mount (client_options (Some seed)) net)) = requests net
       \<and> loadNext (client_options (Some seed)) (mount (client_options (Some seed)) net)
           = mount (client_options (Some seed)) net
       \<and> run (Some seed) evs (mount (client_options (Some seed)) net)
           = mount (client_options (Some seed)) net
       \<and> render (Some seed) (fst (mount (client_options (Some seed)) net)) =
           ProductGrid \<lparr>initialProducts = products seed, grid_isLoading = False, hasMore = False\<rparr>"
proof -
  let ?opts = "client_options (Some seed)"
  let ?s = "\<lparr>cached = Some \<lparr>pages = [seed], pageParams = [0]\<rparr>, failure = None, pending = None\<rparr>"
  have m: "mount ?opts net = (?s, net)"
    by (simp add: client_options_eq mount_seeded)
  have h: "\<not> hasNextPage (query_result ?opts ?s)"
    using assms hasNextPage_last[of ?s "\<lparr>pages = [seed], pageParams = [0]\<rparr>" fetchProducts
        "\<lparr>pageSize = None, initialData = Some seed\<rparr>"]
    by (simp add: client_options_eq)
  have l: "loadNext ?opts (?s, net) = (?s, net)"
    using h by (intro loadNext_exhausted[where d = "\<lparr>pages = [seed], pageParams = [0]\<rparr>"]) simp_all
  have r: "run (Some seed) evs (?s, net) = (?s, net)"
    using h by (intro run_exhausted) simp_all
  have v: "render (Some seed) ?s =
           ProductGrid \<lparr>initialProducts = products seed, grid_isLoading = False, hasMore = False\<rparr>"
    using h by (simp add: render_def ProductListClient_def query_result_def)
  show ?thesis using h l r v by (simp add: m)
qed

theorem seeded_mount_is_exhausted_witness:
  "total only_page = 20 \<and> skip only_page = 0 \<and> limit only_page = 20
   \<and> mount (client_options (Some only_page)) (always (ok_response page_two)) =
       (loaded_all, always (ok_response page_two))
   \<and> requests (snd (run (Some only_page)
        [Intersection [\<lparr>isIntersecting = True\<rparr>], Settled, Intersection [\<lparr>isIntersecting = True\<rparr>]]
        (mount (client_options (Some only_page)) (always (ok_response page_two))))) = []"
proof -
  let ?net = "always (ok_response page_two)"
  let ?evs = "[Intersection [\<lparr>isIntersecting = True\<rparr>], Settled,
               Intersection [\<lparr>isIntersecting = True\<rparr>]]"
  have t: "total only_page = 20" "skip only_page = 0" "limit only_page = 20"
    by (simp_all add: only_page_def)
  from seeded_mount_is_exhausted[OF t, of ?net ?evs]
  have m: "mount (client_options (Some only_page)) ?net =
       (\<lparr>cached = Some \<lparr>pages = [only_page], pageParams = [0]\<rparr>, failure = None, pending = None\<rparr>, ?net)"
    and r: "run (Some only_page) ?evs (mount (client_options (Some only_page)) ?net)
       = mount (client_options (Some only_page)) ?net"
    by blast+
  have e: "requests ?net = []" by (simp add: always_def)
  from t show ?thesis by (simp only: r) (simp add: m e loaded_all_def)
qed

subsection \<open>C10: a failed server-side fetch\<close>

text \<open>
  C10. If the server-side \<open>fetchProducts(20, 0)\<close> fails with any error \<open>e\<close>, then
  \<open>getInitialProducts\<close> logs \<open>e\<close> to the console and returns \<open>null\<close>, and \<open>ProductsPage\<close>
  still renders, handing \<open>undefined\<close> to the client component as its \<open>initialData\<close>. The
  client, mounted without a seed, holds no error, shows the first-load spinner and
  issues its own request for limit 20 and skip 0.
\<close>

theorem failed_server_fetch_renders_unseeded:
  assumes "fst (fetchProducts 20 0 (server_net srv)) = Inl e"
  shows "fst (getInitialProducts srv) = Null
       \<and> snd (getInitialProducts srv) =
           srv\<lparr>server_net := (server_net srv)
                  \<lparr>requests := requests (server_net srv) @ [products_request 20 0]\<rparr>,
               console := console srv @ [(''Failed to fetch initial products:'', e)]\<rparr>
       \<and> fst (ProductsPage srv) =
           \<lparr>heading = ''Products'', tagline = ''Explore our collection of products~'',
            client_initialData = None\<rparr>
       \<and> snd (ProductsPage srv) = snd (getInitialProducts srv)
       \<and> mount (client_options (client_initialData (fst (ProductsPage srv)))) net =
           (\<lparr>cached = None, failure = None, pending = Some (0, fst (fetchProducts 20 0 net))\<rparr>,
            net\<lparr>requests := requests net @ [products_request 20 0]\<rparr>)
       \<and> render (client_initialData (fst (ProductsPage srv))) (fst (mount (client_options (client_initialData (fst (ProductsPage srv)))) net))
           = LoadingView"
proof -
  have g: "getInitialProducts srv =
      (Null, srv\<lparr>server_net := (server_net srv)
                     \<lparr>requests := requests (server_net srv) @ [products_request 20 0]\<rparr>,
               console := console srv @ [(''Failed to fetch initial products:'', e)]\<rparr>)"
    using assms fetchProducts_requests[of 20 0 "server_net srv"]
    by (cases "fetchProducts 20 0 (server_net srv)") (simp add: getInitialProducts_def)
  have p: "ProductsPage srv =
      (\<lparr>heading = ''Products'', tagline = ''Explore our collection of products~'',
            client_initialData = None\<rparr>, snd (getInitialProducts srv))"
    by (simp add: ProductsPage_def g)
  have m: "mount (client_options None) net =
           (\<lparr>cached = None, failure = None, pending = Some (0, fst (fetchProducts 20 0 net))\<rparr>,
            net\<lparr>requests := requests net @ [products_request 20 0]\<rparr>)"
    by (simp add: client_options_eq mount_unseeded fetchProducts_requests)
  have v: "render None \<lparr>cached = None, failure = None, pending = Some (0, fst (fetchProducts 20 0 net))\<rparr> = LoadingView"
    by (simp add: render_def ProductListClient_def query_result_def)
  show ?thesis using v by (simp add: g p m)
qed

theorem failed_server_fetch_renders_unseeded_witness:
  "fst (fetchProducts 20 0
          (server_net \<lparr>server_net = always (Rejected ''fetch failed''), console = []\<rparr>)) =
     Inl (TransportError ''fetch failed'')
   \<and> fst (ProductsPage \<lparr>server_net = always (Rejected ''fetch failed''), console = []\<rparr>) =
       \<lparr>heading = ''Products'', tagline = ''Explore our collection of products~'',
        client_initialData = None\<rparr>
   \<and> console (snd (ProductsPage \<lparr>server_net = always (Rejected ''fetch failed''), console = []\<rparr>))
       = [(''Failed to fetch initial products:'', TransportError ''fetch failed'')]
   \<and> map url (requests (snd (mount
        (client_options (client_initialData
           (fst (ProductsPage \<lparr>server_net = always (Rejected ''fetch failed''), console = []\<rparr>))))
        (always (ok_response first_of_100))))) =
       [''https://dummyjson.com/products?limit=20&skip=0'']"
proof -
  let ?srv = "\<lparr>server_net = always (Rejected ''fetch failed''), console = []\<rparr>"
  let ?net = "always (ok_response first_of_100)"
  have f: "fst (fetchProducts 20 0 (server_net ?srv)) = Inl (TransportError ''fetch failed'')"
    by (simp add: fetchProducts_result always_def)
  have u: "url (products_request 20 0) = ''https://dummyjson.com/products?limit=20&skip=0''"
    by (simp add: products_request_def products_url_def API_BASE_URL_def show_number_examples)
  have e: "requests ?net = []" by (simp add: always_def)
  from failed_server_fetch_renders_unseeded[OF f, of ?net]
  have g: "snd (getInitialProducts ?srv) =
           ?srv\<lparr>server_net := (server_net ?srv)
                  \<lparr>requests := requests (server_net ?srv) @ [products_request 20 0]\<rparr>,
               console := console ?srv @ [(''Failed to fetch initial products:'',
                                           TransportError ''fetch failed'')]\<rparr>"
    and p: "fst (ProductsPage ?srv) =
           \<lparr>heading = ''Products'', tagline = ''Explore our collection of products~'',
            client_initialData = None\<rparr>"
    and q: "snd (ProductsPage ?srv) = snd (getInitialProducts ?srv)"
    and m: "mount (client_options (client_initialData (fst (ProductsPage ?srv)))) ?net =
           (\<lparr>cached = None, failure = None, pending = Some (0, fst (fetchProducts 20 0 ?net))\<rparr>,
            ?net\<lparr>requests := requests ?net @ [products_request 20 0]\<rparr>)"
    by blast+
  from f show ?thesis by (simp only: m) (simp add: p q g e u)
qed

end
